theory Spec2Isabelle
  imports Main "HOL-Library.Multiset"
begin

section \<open>Firewood allocation: the data model of \<^verbatim>\<open>firewood_allocation.py\<close>\<close>

text \<open>
  Volumes and distances are Python floats in the source. The definitions below use only the
  operations the source applies to them (\<open>0.0\<close>, \<open>\<le>\<close>, \<open><\<close>, \<open>-\<close>, \<open>*\<close>, \<open>+\<close>) and are
  polymorphic in the number type, which is only required to provide these operations. A
  theorem that needs no law of arithmetic is stated for every such type; a theorem that
  needs laws names them in the sort of its type variable (a linear order, an ordered
  integral domain), so it speaks of exact arithmetic and not of rounding.

  A Python \<^verbatim>\<open>dict\<close> from names to numbers is a map; dictionaries are mutable objects
  that \<^verbatim>\<open>main\<close> passes by reference, so they live in a store indexed by address.
\<close>

type_synonym 'a dict = "string \<rightharpoonup> 'a"

type_synonym addr = nat

type_synonym 'a store = "addr \<Rightarrow> 'a dict"

text \<open>\<^verbatim>\<open>m.get(k, 0.0)\<close>\<close>

definition dict_get :: "('a::zero) dict \<Rightarrow> string \<Rightarrow> 'a" where
  "dict_get m k = (case m k of None \<Rightarrow> 0 | Some v \<Rightarrow> v)"

text \<open>\<^verbatim>\<open>store[a][k] = v\<close>\<close>

definition dict_set :: "'a store \<Rightarrow> addr \<Rightarrow> string \<Rightarrow> 'a \<Rightarrow> 'a store" where
  "dict_set h a k v = h(a := (h a)(k \<mapsto> v))"

text \<open>One row of the OD matrix, as \<^verbatim>\<open>load_od\<close> returns it.\<close>

record 'a od_row =
  od_origin_id :: string
  od_destination_id :: string
  od_distance_km :: 'a

text \<open>One line item of the result, the dictionary appended at lines 161-168.\<close>

record 'a allocation =
  origin_id :: string
  destination_id :: string
  allocated_volume :: 'a
  distance_km :: 'a
  demand_type :: string
  weighted_cost :: 'a

text \<open>
  The variables of the loop of \<^verbatim>\<open>greedy_allocate\<close>: the store holding the two
  dictionaries, the list \<^verbatim>\<open>allocations\<close> and \<^verbatim>\<open>total_weighted_cost\<close>.
\<close>

record 'a loop_state =
  store :: "'a store"
  allocations :: "'a allocation list"
  total_weighted_cost :: 'a

section \<open>\<^verbatim>\<open>greedy_allocate\<close> (lines 125-170)\<close>

text \<open>Line 143: \<^verbatim>\<open>cutoff_km is not None and dist > cutoff_km\<close>.\<close>

definition beyond_cutoff :: "('a::ord) option \<Rightarrow> 'a \<Rightarrow> bool" where
  "beyond_cutoff cutoff_km dist = (case cutoff_km of None \<Rightarrow> False | Some c \<Rightarrow> dist > c)"

text \<open>The body of the \<^verbatim>\<open>for\<close> loop, lines 139-168; each \<^verbatim>\<open>continue\<close> returns the state as it is.\<close>

definition greedy_step ::
  "addr \<Rightarrow> addr \<Rightarrow> string \<Rightarrow> 'a option \<Rightarrow> 'a loop_state \<Rightarrow> 'a od_row
    \<Rightarrow> ('a::{zero,ord,plus,minus,times}) loop_state" where
  "greedy_step supply_map demand_map dtype cutoff_km st row =
    (let orig = od_origin_id row;
         dest = od_destination_id row;
         dist = od_distance_km row
     in if beyond_cutoff cutoff_km dist then st
        else
          let s_left = dict_get (store st supply_map) orig;
              d_left = dict_get (store st demand_map) dest
          in if s_left \<le> 0 \<or> d_left \<le> 0 then st
             else
               let alloc = (if s_left < d_left then s_left else d_left)
               in if alloc \<le> 0 then st
                  else
                    let h1 = dict_set (store st) supply_map orig (s_left - alloc);
                        h2 = dict_set h1 demand_map dest (d_left - alloc);
                        wcost = alloc * dist
                    in \<lparr>store = h2,
                        allocations = allocations st @
                          [\<lparr>origin_id = orig, destination_id = dest,
                            allocated_volume = alloc, distance_km = dist,
                            demand_type = dtype, weighted_cost = wcost\<rparr>],
                        total_weighted_cost = total_weighted_cost st + wcost\<rparr>)"

text \<open>The \<^verbatim>\<open>for\<close> loop over the rows of \<^verbatim>\<open>od_df\<close>, in row order.\<close>

fun greedy_loop ::
  "addr \<Rightarrow> addr \<Rightarrow> string \<Rightarrow> 'a option \<Rightarrow> 'a od_row list \<Rightarrow> 'a loop_state
    \<Rightarrow> ('a::{zero,ord,plus,minus,times}) loop_state" where
  "greedy_loop supply_map demand_map dtype cutoff_km [] st = st"
| "greedy_loop supply_map demand_map dtype cutoff_km (row # rows) st =
     greedy_loop supply_map demand_map dtype cutoff_km rows
       (greedy_step supply_map demand_map dtype cutoff_km st row)"

text \<open>
  \<^verbatim>\<open>greedy_allocate\<close> returns \<^verbatim>\<open>(allocations, total_weighted_cost)\<close>; the store it leaves
  behind is returned as the third component.
\<close>

definition greedy_allocate ::
  "'a od_row list \<Rightarrow> addr \<Rightarrow> addr \<Rightarrow> string \<Rightarrow> 'a option \<Rightarrow> 'a store
    \<Rightarrow> 'a allocation list \<times> 'a \<times> ('a::{zero,ord,plus,minus,times}) store" where
  "greedy_allocate od_df supply_map demand_map dtype cutoff_km h =
    (let st = greedy_loop supply_map demand_map dtype cutoff_km od_df
                \<lparr>store = h, allocations = [], total_weighted_cost = 0\<rparr>
     in (allocations st, total_weighted_cost st, store st))"

section \<open>Loading the two tables (lines 54-123)\<close>

text \<open>
  \<^verbatim>\<open>pd.read_csv\<close> is the library's: the model starts from the table it returns, a header of
  column names (assumed distinct) and rows of cells, each cell as \<^verbatim>\<open>astype(str)\<close> shows it.
  The two parsers of numbers are the library's as well and are parameters:
  \<open>to_numeric\<close> is \<^verbatim>\<open>pd.to_numeric(errors='coerce')\<close> on one cell, \<open>None\<close> where it
  yields NaN, and \<open>astype_float\<close> is the conversion \<^verbatim>\<open>astype(float)\<close> of one cell,
  \<open>None\<close> where it raises.
\<close>

record frame =
  frame_columns :: "string list"
  frame_rows :: "string list list"

datatype table = DemandSupply | ODMatrix

datatype error =
    MissingColumns table "string set"
  | CannotConvertToFloat string

text \<open>\<^verbatim>\<open>df.rename(columns=m)\<close>: a label that is a key of \<open>m\<close> is replaced, any other is kept.\<close>

definition rename_columns :: "(string \<times> string) list \<Rightarrow> string list \<Rightarrow> string list" where
  "rename_columns m cols = map (\<lambda>c. case map_of m c of None \<Rightarrow> c | Some v \<Rightarrow> v) cols"

text \<open>The cell of a row under a column label; a row shorter than the header is padded with NaN.\<close>

definition cell :: "string list \<Rightarrow> string list \<Rightarrow> string \<Rightarrow> string" where
  "cell cols row c = (case map_of (zip cols row) c of None \<Rightarrow> ''nan'' | Some v \<Rightarrow> v)"

text \<open>\<^verbatim>\<open>.str.replace(",", ".", regex=False)\<close>\<close>

definition replace_comma :: "string \<Rightarrow> string" where
  "replace_comma s = map (\<lambda>c. if c = CHR '','' then CHR ''.'' else c) s"

text \<open>\<^verbatim>\<open>.str.strip()\<close>, on the ASCII white space.\<close>

definition is_space :: "char \<Rightarrow> bool" where
  "is_space c = (c \<in> {CHR '' '', CHR 0x09, CHR 0x0A, CHR 0x0B, CHR 0x0C, CHR 0x0D,
                        CHR 0x1C, CHR 0x1D, CHR 0x1E, CHR 0x1F})"

definition strip :: "string \<Rightarrow> string" where
  "strip s = rev (dropWhile is_space (rev (dropWhile is_space s)))"

text \<open>Lines 84-90: the cleaning of one numeric cell.\<close>

definition clean_number :: "(string \<Rightarrow> 'a option) \<Rightarrow> string \<Rightarrow> ('a::zero)" where
  "clean_number to_numeric s =
    (let t = replace_comma s;
         u = (if t = [] \<or> t = ''nan'' then ''0'' else t)
     in case to_numeric u of None \<Rightarrow> 0 | Some v \<Rightarrow> v)"

record 'a ds_row =
  NAME :: string
  SUPPLY :: 'a
  INDUSTRIAL_DEMAND :: 'a
  RESIDENTIAL_DEMAND :: 'a

definition ds_rename_map :: "(string \<times> string) list" where
  "ds_rename_map =
    [(''DEMAND_INDUSTRY'', ''INDUSTRIAL_DEMAND''),
     (''DEMAND_RESIDENTIAL'', ''RESIDENTIAL_DEMAND''),
     (''name'', ''NAME''),
     (''supply'', ''SUPPLY''),
     (''industrial_demand'', ''INDUSTRIAL_DEMAND''),
     (''residential_demand'', ''RESIDENTIAL_DEMAND'')]"

definition ds_required :: "string set" where
  "ds_required = {''NAME'', ''SUPPLY'', ''INDUSTRIAL_DEMAND'', ''RESIDENTIAL_DEMAND''}"

text \<open>\<^verbatim>\<open>load_demand_supply\<close>, from the table read at lines 57-63 on.\<close>

definition load_demand_supply ::
  "(string \<Rightarrow> 'a option) \<Rightarrow> frame \<Rightarrow> error + ('a::zero) ds_row list" where
  "load_demand_supply to_numeric df =
    (let cols = rename_columns ds_rename_map (frame_columns df);
         missing = ds_required - set cols
     in if missing \<noteq> {} then Inl (MissingColumns DemandSupply missing)
        else Inr (map (\<lambda>r.
               \<lparr>NAME = strip (cell cols r ''NAME''),
                SUPPLY = clean_number to_numeric (cell cols r ''SUPPLY''),
                INDUSTRIAL_DEMAND = clean_number to_numeric (cell cols r ''INDUSTRIAL_DEMAND''),
                RESIDENTIAL_DEMAND = clean_number to_numeric (cell cols r ''RESIDENTIAL_DEMAND'')\<rparr>)
               (frame_rows df)))"

definition od_rename_map :: "(string \<times> string) list" where
  "od_rename_map =
    [(''Origin'', ''origin_id''),
     (''Destination'', ''destination_id''),
     (''Distance_km'', ''distance_km''),
     (''distance'', ''distance_km'')]"

definition od_required :: "string set" where
  "od_required = {''origin_id'', ''destination_id'', ''distance_km''}"

text \<open>
  Lines 112-120 on the rows: the distance column is converted first, and the conversion
  raises at the first cell that is not a number.
\<close>

fun clean_od_rows ::
  "(string \<Rightarrow> 'a option) \<Rightarrow> string list \<Rightarrow> string list list \<Rightarrow> error + 'a od_row list" where
  "clean_od_rows astype_float cols [] = Inr []"
| "clean_od_rows astype_float cols (r # rs) =
    (let s = replace_comma (cell cols r ''distance_km'')
     in case astype_float s of
          None \<Rightarrow> Inl (CannotConvertToFloat s)
        | Some dist \<Rightarrow>
            (case clean_od_rows astype_float cols rs of
               Inl e \<Rightarrow> Inl e
             | Inr od \<Rightarrow>
                 Inr (\<lparr>od_origin_id = strip (cell cols r ''origin_id''),
                       od_destination_id = strip (cell cols r ''destination_id''),
                       od_distance_km = dist\<rparr> # od)))"

text \<open>
  Line 122, \<^verbatim>\<open>sort_values('distance_km', kind='mergesort')\<close>: the library's stable sort by
  one key. A stable sort by a key is one function of the list, whatever the algorithm, and
  \<^const>\<open>sort_key\<close> is that function.
\<close>

definition sort_values :: "('a::linorder) od_row list \<Rightarrow> 'a od_row list" where
  "sort_values od = sort_key od_distance_km od"

text \<open>\<^verbatim>\<open>load_od\<close>, from the table read at line 98 on.\<close>

definition load_od ::
  "(string \<Rightarrow> 'a option) \<Rightarrow> frame \<Rightarrow> error + ('a::linorder) od_row list" where
  "load_od astype_float od =
    (let cols = rename_columns od_rename_map (frame_columns od);
         missing = od_required - set cols
     in if missing \<noteq> {} then Inl (MissingColumns ODMatrix missing)
        else case clean_od_rows astype_float cols (frame_rows od) of
               Inl e \<Rightarrow> Inl e
             | Inr cleaned \<Rightarrow> Inr (sort_values cleaned))"

section \<open>\<^verbatim>\<open>main\<close> (lines 172-205)\<close>

text \<open>\<^verbatim>\<open>Series.to_dict()\<close>: the pairs are stored in row order, a repeated name keeps the last value.\<close>

definition to_dict :: "(string \<times> 'a) list \<Rightarrow> 'a dict" where
  "to_dict kvs = foldl (\<lambda>m kv. m(fst kv \<mapsto> snd kv)) Map.empty kvs"

text \<open>The three dictionaries built at lines 177-179 are three objects, at three addresses
  (the variables \<^verbatim>\<open>supply\<close>, \<^verbatim>\<open>ind\<close> and \<^verbatim>\<open>res\<close> of \<^verbatim>\<open>main\<close>).\<close>

abbreviation supply_dict :: addr where
  "supply_dict \<equiv> 0"

abbreviation ind_dict :: addr where
  "ind_dict \<equiv> 1"

abbreviation res_dict :: addr where
  "res_dict \<equiv> 2"

definition build_dicts :: "'a ds_row list \<Rightarrow> 'a store" where
  "build_dicts demand_supply =
    (\<lambda>a. Map.empty)
      (supply_dict := to_dict (map (\<lambda>r. (NAME r, SUPPLY r)) demand_supply),
       ind_dict := to_dict (map (\<lambda>r. (NAME r, INDUSTRIAL_DEMAND r)) demand_supply),
       res_dict := to_dict (map (\<lambda>r. (NAME r, RESIDENTIAL_DEMAND r)) demand_supply))"

text \<open>\<^verbatim>\<open>Series.sum()\<close> of a column of numbers.\<close>

definition series_sum :: "('a::{zero,plus}) list \<Rightarrow> 'a" where
  "series_sum xs = foldl (+) 0 xs"

text \<open>
  What a run leaves: the line items written to the result file, the three numbers printed,
  and the store with the three dictionaries as the two passes left them.
\<close>

record 'a run_result =
  alloc_df :: "'a allocation list"
  total_alloc :: 'a
  cost_ind :: 'a
  cost_res :: 'a
  final_store :: "'a store"

text \<open>Lines 181-204: the two passes on the loaded tables.\<close>

definition two_pass ::
  "'a od_row list \<Rightarrow> 'a option \<Rightarrow> 'a store
    \<Rightarrow> ('a::{zero,ord,plus,minus,times}) run_result" where
  "two_pass od_df cutoff_km h0 =
    (case greedy_allocate od_df supply_dict ind_dict ''industrial'' cutoff_km h0 of
       (alloc_ind, c_ind, h1) \<Rightarrow>
         (case greedy_allocate od_df supply_dict res_dict ''residential'' cutoff_km h1 of
            (alloc_res, c_res, h2) \<Rightarrow>
              \<lparr>alloc_df = alloc_ind @ alloc_res,
               total_alloc =
                 (if alloc_ind @ alloc_res = [] then 0
                  else series_sum (map allocated_volume (alloc_ind @ alloc_res))),
               cost_ind = c_ind,
               cost_res = c_res,
               final_store = h2\<rparr>))"

text \<open>\<^verbatim>\<open>main\<close>: an exception of a loader ends the run before the dictionaries are built.\<close>

definition main ::
  "(string \<Rightarrow> 'a option) \<Rightarrow> (string \<Rightarrow> 'a option) \<Rightarrow> frame \<Rightarrow> frame \<Rightarrow> 'a option
    \<Rightarrow> error + ('a::{zero,linorder,plus,minus,times}) run_result" where
  "main to_numeric astype_float ds_csv od_csv cutoff_km =
    (case load_demand_supply to_numeric ds_csv of
       Inl e \<Rightarrow> Inl e
     | Inr demand_supply \<Rightarrow>
         (case load_od astype_float od_csv of
            Inl e \<Rightarrow> Inl e
          | Inr od_df \<Rightarrow> Inr (two_pass od_df cutoff_km (build_dicts demand_supply))))"

section \<open>The example of the specification\<close>

text \<open>
  Supply \<open>{A: 10}\<close>, industrial demand \<open>{B: 6}\<close>, residential demand \<open>{B: 10}\<close> and the one
  pair \<open>A \<rightarrow> B\<close> at distance 5.
\<close>

definition example_store :: "('a::numeral) store" where
  "example_store =
    (\<lambda>a. Map.empty)
      (supply_dict := [''A'' \<mapsto> 10], ind_dict := [''B'' \<mapsto> 6], res_dict := [''B'' \<mapsto> 10])"

definition example_od :: "('a::numeral) od_row list" where
  "example_od = [\<lparr>od_origin_id = ''A'', od_destination_id = ''B'', od_distance_km = 5\<rparr>]"

text \<open>
  The same example as the two tables \<^verbatim>\<open>main\<close> loads, and a parser of the numbers that occur
  in them.
\<close>

definition example_ds_csv :: frame where
  "example_ds_csv =
    \<lparr>frame_columns = [''NAME'', ''SUPPLY'', ''INDUSTRIAL_DEMAND'', ''RESIDENTIAL_DEMAND''],
     frame_rows = [[''A'', ''10'', ''0'', ''0''], [''B'', ''0'', ''6'', ''10'']]\<rparr>"

definition example_od_csv :: frame where
  "example_od_csv =
    \<lparr>frame_columns = [''origin_id'', ''destination_id'', ''distance_km''],
     frame_rows = [[''A'', ''B'', ''5'']]\<rparr>"

definition example_parse :: "string \<Rightarrow> ('a::{zero,numeral}) option" where
  "example_parse = map_of [(''0'', 0), (''5'', 5), (''6'', 6), (''10'', 10)]"

section \<open>Properties of one step and of the loop\<close>

lemma dict_get_absent: "m k = None \<Longrightarrow> dict_get m k = 0"
  by (simp add: dict_get_def)

lemma step_skip:
  "dict_get (store st supply_map) (od_origin_id row) \<le> 0 \<or>
   dict_get (store st demand_map) (od_destination_id row) \<le> 0
   \<Longrightarrow> greedy_step supply_map demand_map dtype cutoff_km st row = st"
  by (simp add: greedy_step_def Let_def)

lemma step_beyond:
  "beyond_cutoff cutoff_km (od_distance_km row)
   \<Longrightarrow> greedy_step supply_map demand_map dtype cutoff_km st row = st"
  by (simp add: greedy_step_def Let_def)

lemma step_within:
  "\<not> beyond_cutoff cutoff_km (od_distance_km row)
   \<Longrightarrow> greedy_step supply_map demand_map dtype cutoff_km st row =
       greedy_step supply_map demand_map dtype None st row"
  by (simp add: greedy_step_def Let_def beyond_cutoff_def)


lemma loop_cutoff_filter:
  "greedy_loop sm dm dtype (Some c) rows st =
   greedy_loop sm dm dtype None (filter (\<lambda>r. \<not> od_distance_km r > c) rows) st"
proof (induction rows arbitrary: st)
  case Nil
  show ?case by simp
next
  case (Cons row rows)
  show ?case
  proof (cases "od_distance_km row > c")
    case True
    then have "greedy_step sm dm dtype (Some c) st row = st"
      by (simp add: step_beyond beyond_cutoff_def)
    with True Cons show ?thesis by simp
  next
    case False
    then have "greedy_step sm dm dtype (Some c) st row = greedy_step sm dm dtype None st row"
      using step_within[of "Some c" row sm dm dtype st] by (simp add: beyond_cutoff_def)
    with False Cons show ?thesis by simp
  qed
qed

lemma step_distance_within:
  "(\<forall>a \<in> set (allocations st). \<not> beyond_cutoff cutoff_km (distance_km a))
   \<Longrightarrow> \<forall>a \<in> set (allocations (greedy_step sm dm dtype cutoff_km st row)).
         \<not> beyond_cutoff cutoff_km (distance_km a)"
  by (simp add: greedy_step_def Let_def)

lemma loop_distance_within:
  "(\<forall>a \<in> set (allocations st). \<not> beyond_cutoff cutoff_km (distance_km a))
   \<Longrightarrow> \<forall>a \<in> set (allocations (greedy_loop sm dm dtype cutoff_km rows st)).
         \<not> beyond_cutoff cutoff_km (distance_km a)"
proof (induction rows arbitrary: st)
  case Nil
  then show ?case by simp
next
  case (Cons row rows)
  from Cons.prems have "\<forall>a \<in> set (allocations (greedy_step sm dm dtype cutoff_km st row)).
         \<not> beyond_cutoff cutoff_km (distance_km a)"
    by (rule step_distance_within)
  from Cons.IH[OF this] show ?case by simp
qed

lemma cost_step:
  "total_weighted_cost st = foldl (+) 0 (map weighted_cost (allocations st))
   \<Longrightarrow> total_weighted_cost (greedy_step sm dm dtype cutoff_km st row) =
       foldl (+) 0 (map weighted_cost (allocations (greedy_step sm dm dtype cutoff_km st row)))"
  by (simp add: greedy_step_def Let_def)

lemma cost_loop:
  "total_weighted_cost st = foldl (+) 0 (map weighted_cost (allocations st))
   \<Longrightarrow> total_weighted_cost (greedy_loop sm dm dtype cutoff_km rows st) =
       foldl (+) 0 (map weighted_cost (allocations (greedy_loop sm dm dtype cutoff_km rows st)))"
proof (induction rows arbitrary: st)
  case Nil
  then show ?case by simp
next
  case (Cons row rows)
  from Cons.IH[OF cost_step[OF Cons.prems]] show ?case by simp
qed





lemma example_pass1:
  "greedy_allocate example_od supply_dict ind_dict ''industrial'' (Some 50)
      (example_store :: ('a::linordered_idom) store) =
    ([\<lparr>origin_id = ''A'', destination_id = ''B'', allocated_volume = 6, distance_km = 5,
       demand_type = ''industrial'', weighted_cost = 30\<rparr>], 30,
     (\<lambda>a. Map.empty)
      (supply_dict := [''A'' \<mapsto> 4], ind_dict := [''B'' \<mapsto> 0], res_dict := [''B'' \<mapsto> 10]))"
  by (simp add: greedy_allocate_def greedy_step_def beyond_cutoff_def dict_get_def dict_set_def
      Let_def example_od_def example_store_def fun_upd_twist)

lemma example_pass2:
  "greedy_allocate example_od supply_dict res_dict ''residential'' (Some 50)
      ((\<lambda>a. Map.empty)
      (supply_dict := [''A'' \<mapsto> 4], ind_dict := [''B'' \<mapsto> 0], res_dict := [''B'' \<mapsto> (10::'a::linordered_idom)])) =
    ([\<lparr>origin_id = ''A'', destination_id = ''B'', allocated_volume = 4, distance_km = 5,
       demand_type = ''residential'', weighted_cost = 20\<rparr>], 20,
     (\<lambda>a. Map.empty)
      (supply_dict := [''A'' \<mapsto> 0], ind_dict := [''B'' \<mapsto> 0], res_dict := [''B'' \<mapsto> 6]))"
  by (simp add: greedy_allocate_def greedy_step_def beyond_cutoff_def dict_get_def dict_set_def
      Let_def example_od_def fun_upd_twist)









lemma step_frame:
  assumes "a \<noteq> sm" and "a \<noteq> dm"
  shows "store (greedy_step sm dm dtype cutoff_km st row) a = store st a"
  using assms by (simp add: greedy_step_def Let_def dict_set_def)

lemma loop_frame:
  assumes "a \<noteq> sm" and "a \<noteq> dm"
  shows "store (greedy_loop sm dm dtype cutoff_km rows st) a = store st a"
  by (induction rows arbitrary: st) (simp_all add: step_frame[OF assms])

lemma step_demand_type:
  assumes "\<forall>a \<in> set (allocations st). demand_type a = dtype"
  shows "\<forall>a \<in> set (allocations (greedy_step sm dm dtype cutoff_km st row)). demand_type a = dtype"
  using assms by (simp add: greedy_step_def Let_def)

lemma loop_demand_type:
  assumes "\<forall>a \<in> set (allocations st). demand_type a = dtype"
  shows "\<forall>a \<in> set (allocations (greedy_loop sm dm dtype cutoff_km rows st)). demand_type a = dtype"
  using assms
proof (induction rows arbitrary: st)
  case Nil
  then show ?case by simp
next
  case (Cons row rows)
  from Cons.IH[OF step_demand_type[OF Cons.prems]] show ?case by simp
qed










lemma pass_frame:
  assumes "greedy_allocate od_df sm dm dtype cutoff_km h = (allocs, cost, h')"
      and "a \<noteq> sm" and "a \<noteq> dm"
  shows "h' a = h a"
  using assms(1) loop_frame[OF assms(2,3), of dtype cutoff_km od_df
      "\<lparr>store = h, allocations = [], total_weighted_cost = 0\<rparr>"]
  by (auto simp: greedy_allocate_def Let_def)

lemma pass_demand_type:
  assumes "greedy_allocate od_df sm dm dtype cutoff_km h = (allocs, cost, h')"
  shows "\<forall>a \<in> set allocs. demand_type a = dtype"
proof -
  have "\<forall>a \<in> set (allocations (greedy_loop sm dm dtype cutoff_km od_df
      \<lparr>store = h, allocations = [], total_weighted_cost = 0\<rparr>)). demand_type a = dtype"
    by (rule loop_demand_type) simp
  with assms show ?thesis
    by (auto simp: greedy_allocate_def Let_def)
qed



lemma example_two_pass:
  "two_pass example_od (Some 50) (example_store :: ('a::linordered_idom) store) =
    \<lparr>alloc_df =
       [\<lparr>origin_id = ''A'', destination_id = ''B'', allocated_volume = 6, distance_km = 5,
         demand_type = ''industrial'', weighted_cost = 30\<rparr>,
        \<lparr>origin_id = ''A'', destination_id = ''B'', allocated_volume = 4, distance_km = 5,
         demand_type = ''residential'', weighted_cost = 20\<rparr>],
     total_alloc = 10, cost_ind = 30, cost_res = 20,
     final_store = (\<lambda>a. Map.empty)
      (supply_dict := [''A'' \<mapsto> 0], ind_dict := [''B'' \<mapsto> 0], res_dict := [''B'' \<mapsto> 6])\<rparr>"
  unfolding two_pass_def example_pass1 prod.case example_pass2
  by (simp add: series_sum_def)

lemma example_load_ds:
  "load_demand_supply example_parse example_ds_csv =
     Inr [\<lparr>NAME = ''A'', SUPPLY = (10::'a::linordered_idom), INDUSTRIAL_DEMAND = 0, RESIDENTIAL_DEMAND = 0\<rparr>,
          \<lparr>NAME = ''B'', SUPPLY = 0, INDUSTRIAL_DEMAND = 6, RESIDENTIAL_DEMAND = 10\<rparr>]"
  by (simp add: load_demand_supply_def example_ds_csv_def example_parse_def rename_columns_def
      ds_rename_map_def ds_required_def cell_def strip_def is_space_def clean_number_def
      replace_comma_def Let_def)

lemma example_load_od:
  "load_od example_parse example_od_csv = Inr (example_od :: ('a::linordered_idom) od_row list)"
  by (simp add: load_od_def example_od_csv_def example_parse_def rename_columns_def
      od_rename_map_def od_required_def cell_def strip_def is_space_def sort_values_def
      replace_comma_def Let_def example_od_def)

lemma two_pass_split:
  obtains alloc_ind c_ind h1 alloc_res c_res h2 where
    "greedy_allocate od_df supply_dict ind_dict ''industrial'' cutoff_km h0 = (alloc_ind, c_ind, h1)"
    "greedy_allocate od_df supply_dict res_dict ''residential'' cutoff_km h1 = (alloc_res, c_res, h2)"
    "alloc_df (two_pass od_df cutoff_km h0) = alloc_ind @ alloc_res"
    "cost_ind (two_pass od_df cutoff_km h0) = c_ind"
    "cost_res (two_pass od_df cutoff_km h0) = c_res"
    "final_store (two_pass od_df cutoff_km h0) = h2"
proof -
  obtain alloc_ind c_ind h1 where
    p1: "greedy_allocate od_df supply_dict ind_dict ''industrial'' cutoff_km h0 = (alloc_ind, c_ind, h1)"
    by (cases "greedy_allocate od_df supply_dict ind_dict ''industrial'' cutoff_km h0") blast
  obtain alloc_res c_res h2 where
    p2: "greedy_allocate od_df supply_dict res_dict ''residential'' cutoff_km h1 = (alloc_res, c_res, h2)"
    by (cases "greedy_allocate od_df supply_dict res_dict ''residential'' cutoff_km h1") blast
  show thesis
    by (rule that[OF p1 p2]) (simp_all only: two_pass_def p1 p2 prod.case run_result.simps)
qed

lemma load_od_sorted:
  assumes "load_od astype_float od_csv = Inr od_df"
  shows "\<exists>cleaned. clean_od_rows astype_float
            (rename_columns od_rename_map (frame_columns od_csv)) (frame_rows od_csv) = Inr cleaned \<and>
          od_df = sort_values cleaned"
  using assms by (auto simp: load_od_def Let_def split: if_splits sum.splits)

lemma sort_values_sorted: "sorted (map od_distance_km (sort_values od))"
  by (simp add: sort_values_def)

lemma sort_values_id: "sorted (map od_distance_km od) \<Longrightarrow> sort_values od = od"
  by (simp add: sort_values_def sort_key_id_if_sorted)

lemma example_main:
  "main example_parse example_parse example_ds_csv example_od_csv (Some (50::'a::linordered_idom)) =
    Inr (two_pass example_od (Some 50)
      (build_dicts
         [\<lparr>NAME = ''A'', SUPPLY = 10, INDUSTRIAL_DEMAND = 0, RESIDENTIAL_DEMAND = 0\<rparr>,
          \<lparr>NAME = ''B'', SUPPLY = 0, INDUSTRIAL_DEMAND = 6, RESIDENTIAL_DEMAND = 10\<rparr>]))"
  unfolding main_def example_load_ds example_load_od sum.case ..

section \<open>The claims\<close>

text \<open>
  C1. A run that loads both tables makes exactly two calls of \<^verbatim>\<open>greedy_allocate\<close> on the
  same distance-sorted table: the first with the industrial demand dictionary, the second
  with the residential one, both with the one supply dictionary. The second call starts
  from the store the first one left, so it reads the supply as pass 1 left it, while its
  own demand dictionary is still as it was built (pass 1 does not touch it, and pass 2
  does not touch the industrial one). The records of the run are those of pass 1 followed
  by those of pass 2, each list in emission order; the former all carry the label
  \<^verbatim>\<open>industrial\<close>, the latter \<^verbatim>\<open>residential\<close>.
\<close>

theorem run_is_two_passes_sharing_supply:
  fixes cutoff_km :: "('a::{zero,linorder,plus,minus,times}) option"
  assumes "main to_numeric astype_float ds_csv od_csv cutoff_km = Inr r"
  shows "\<exists>demand_supply od_df alloc_ind c_ind h1 alloc_res c_res h2.
     load_demand_supply to_numeric ds_csv = Inr demand_supply \<and>
     load_od astype_float od_csv = Inr od_df \<and>
     sorted (map od_distance_km od_df) \<and>
     greedy_allocate od_df supply_dict ind_dict ''industrial'' cutoff_km (build_dicts demand_supply)
       = (alloc_ind, c_ind, h1) \<and>
     greedy_allocate od_df supply_dict res_dict ''residential'' cutoff_km h1
       = (alloc_res, c_res, h2) \<and>
     h1 res_dict = build_dicts demand_supply res_dict \<and>
     h2 ind_dict = h1 ind_dict \<and>
     alloc_df r = alloc_ind @ alloc_res \<and>
     (\<forall>a \<in> set alloc_ind. demand_type a = ''industrial'') \<and>
     (\<forall>a \<in> set alloc_res. demand_type a = ''residential'') \<and>
     cost_ind r = c_ind \<and> cost_res r = c_res \<and> final_store r = h2"
proof -
  from assms obtain demand_supply od_df where
    l1: "load_demand_supply to_numeric ds_csv = Inr demand_supply" and
    l2: "load_od astype_float od_csv = Inr od_df" and
    r: "r = two_pass od_df cutoff_km (build_dicts demand_supply)"
    by (auto simp: main_def split: sum.splits)
  obtain alloc_ind c_ind h1 alloc_res c_res h2 where
    p1: "greedy_allocate od_df supply_dict ind_dict ''industrial'' cutoff_km (build_dicts demand_supply)
          = (alloc_ind, c_ind, h1)" and
    p2: "greedy_allocate od_df supply_dict res_dict ''residential'' cutoff_km h1 = (alloc_res, c_res, h2)" and
    df: "alloc_df r = alloc_ind @ alloc_res" and
    ci: "cost_ind r = c_ind" and cr: "cost_res r = c_res" and
    fs: "final_store r = h2"
    unfolding r by (rule two_pass_split)
  have so: "sorted (map od_distance_km od_df)"
    using load_od_sorted[OF l2] sort_values_sorted by auto
  have f1: "h1 res_dict = build_dicts demand_supply res_dict"
    by (rule pass_frame[OF p1]) simp_all
  have f2: "h2 ind_dict = h1 ind_dict"
    by (rule pass_frame[OF p2]) simp_all
  have t1: "\<forall>a \<in> set alloc_ind. demand_type a = ''industrial''"
    by (rule pass_demand_type[OF p1])
  have t2: "\<forall>a \<in> set alloc_res. demand_type a = ''residential''"
    by (rule pass_demand_type[OF p2])
  show ?thesis
    apply (rule exI[of _ demand_supply], rule exI[of _ od_df], rule exI[of _ alloc_ind],
        rule exI[of _ c_ind], rule exI[of _ h1], rule exI[of _ alloc_res], rule exI[of _ c_res],
        rule exI[of _ h2])
    apply (intro conjI)
    apply (fact l1 l2 so p1 p2 f1 f2 df t1 t2 ci cr fs)+
    done
qed

theorem run_is_two_passes_sharing_supply_witness:
  "\<exists>r demand_supply od_df alloc_ind c_ind h1 alloc_res c_res h2.
     main example_parse example_parse example_ds_csv example_od_csv (Some (50::int)) = Inr r \<and>
     load_demand_supply example_parse example_ds_csv = Inr demand_supply \<and>
     load_od example_parse example_od_csv = Inr od_df \<and>
     greedy_allocate od_df supply_dict ind_dict ''industrial'' (Some 50) (build_dicts demand_supply)
       = (alloc_ind, c_ind, h1) \<and>
     greedy_allocate od_df supply_dict res_dict ''residential'' (Some 50) h1
       = (alloc_res, c_res, h2) \<and>
     alloc_df r = alloc_ind @ alloc_res \<and>
     cost_ind r = c_ind \<and> cost_res r = c_res \<and> final_store r = h2"
  using run_is_two_passes_sharing_supply[OF example_main[where 'a = int]]
    example_main[where 'a = int]
  by blast



text \<open>
  C3. With a cutoff \<open>c\<close>, a pair is excluded on distance grounds exactly when its distance
  is strictly greater than \<open>c\<close>: such a step returns the state unchanged, a pair at distance
  exactly \<open>c\<close> is not excluded, and a pair that is not excluded is treated as in a run
  without cutoff. Hence a run with cutoff \<open>c\<close> is the run without cutoff on the table
  without the farther pairs, and no record it emits has \<^verbatim>\<open>distance_km\<close> above \<open>c\<close>.
  With \<^verbatim>\<open>cutoff_km = None\<close> no pair is excluded on distance grounds.
\<close>

theorem cutoff_excludes_exactly_farther_pairs:
  fixes h :: "('a::{zero,preorder,plus,minus,times}) store"
  shows "(beyond_cutoff (Some c) (od_distance_km row) \<longleftrightarrow> od_distance_km row > c)
     \<and> \<not> beyond_cutoff (Some (od_distance_km row)) (od_distance_km row)
     \<and> \<not> beyond_cutoff None (od_distance_km row)
     \<and> (beyond_cutoff cutoff_km (od_distance_km row) \<longrightarrow>
          greedy_step supply_map demand_map dtype cutoff_km st row = st)
     \<and> (\<not> beyond_cutoff cutoff_km (od_distance_km row) \<longrightarrow>
          greedy_step supply_map demand_map dtype cutoff_km st row =
          greedy_step supply_map demand_map dtype None st row)
     \<and> greedy_allocate od_df supply_map demand_map dtype (Some c) h =
         greedy_allocate (filter (\<lambda>r. \<not> od_distance_km r > c) od_df)
           supply_map demand_map dtype None h
     \<and> (\<forall>a \<in> set (fst (greedy_allocate od_df supply_map demand_map dtype (Some c) h)).
           \<not> distance_km a > c)"
proof -
  have "\<forall>a \<in> set (allocations (greedy_loop supply_map demand_map dtype (Some c) od_df
          \<lparr>store = h, allocations = [], total_weighted_cost = 0\<rparr>)).
         \<not> beyond_cutoff (Some c) (distance_km a)"
    by (rule loop_distance_within) simp
  then have f7: "\<forall>a \<in> set (fst (greedy_allocate od_df supply_map demand_map dtype (Some c) h)).
           \<not> distance_km a > c"
    by (simp add: greedy_allocate_def Let_def beyond_cutoff_def)
  have f6: "greedy_allocate od_df supply_map demand_map dtype (Some c) h =
         greedy_allocate (filter (\<lambda>r. \<not> od_distance_km r > c) od_df)
           supply_map demand_map dtype None h"
    by (simp add: greedy_allocate_def loop_cutoff_filter)
  have f5: "\<not> beyond_cutoff cutoff_km (od_distance_km row) \<longrightarrow>
          greedy_step supply_map demand_map dtype cutoff_km st row =
          greedy_step supply_map demand_map dtype None st row"
    using step_within by blast
  have f4: "beyond_cutoff cutoff_km (od_distance_km row) \<longrightarrow>
          greedy_step supply_map demand_map dtype cutoff_km st row = st"
    using step_beyond by blast
  have f3: "\<not> beyond_cutoff None (od_distance_km row)"
    by (simp add: beyond_cutoff_def)
  have f2: "\<not> beyond_cutoff (Some (od_distance_km row)) (od_distance_km row)"
    by (simp add: beyond_cutoff_def)
  have f1: "beyond_cutoff (Some c) (od_distance_km row) \<longleftrightarrow> od_distance_km row > c"
    by (simp add: beyond_cutoff_def)
  show ?thesis
    by (intro conjI) (fact f1 f2 f3 f4 f5 f6 f7)+
qed

theorem cutoff_excludes_exactly_farther_pairs_witness:
  "beyond_cutoff (Some (50::int)) (od_distance_km \<lparr>od_origin_id = ''A'', od_destination_id = ''C'', od_distance_km = 60\<rparr>)
   \<and> greedy_step 0 1 ''industrial'' (Some 50)
        \<lparr>store = (\<lambda>a. Map.empty)(0 := [''A'' \<mapsto> (10::int)], 1 := [''B'' \<mapsto> 6, ''C'' \<mapsto> 3]),
         allocations = [], total_weighted_cost = 0\<rparr>
        \<lparr>od_origin_id = ''A'', od_destination_id = ''C'', od_distance_km = 60\<rparr>
      = \<lparr>store = (\<lambda>a. Map.empty)(0 := [''A'' \<mapsto> (10::int)], 1 := [''B'' \<mapsto> 6, ''C'' \<mapsto> 3]),
         allocations = [], total_weighted_cost = 0\<rparr>
   \<and> \<not> beyond_cutoff (Some (50::int)) (od_distance_km \<lparr>od_origin_id = ''A'', od_destination_id = ''B'', od_distance_km = 50\<rparr>)
   \<and> greedy_step 0 1 ''industrial'' (Some 50)
        \<lparr>store = (\<lambda>a. Map.empty)(0 := [''A'' \<mapsto> (10::int)], 1 := [''B'' \<mapsto> 6, ''C'' \<mapsto> 3]),
         allocations = [], total_weighted_cost = 0\<rparr>
        \<lparr>od_origin_id = ''A'', od_destination_id = ''B'', od_distance_km = 50\<rparr>
      = greedy_step 0 1 ''industrial'' None
        \<lparr>store = (\<lambda>a. Map.empty)(0 := [''A'' \<mapsto> (10::int)], 1 := [''B'' \<mapsto> 6, ''C'' \<mapsto> 3]),
         allocations = [], total_weighted_cost = 0\<rparr>
        \<lparr>od_origin_id = ''A'', od_destination_id = ''B'', od_distance_km = 50\<rparr>
   \<and> fst (greedy_allocate
          [\<lparr>od_origin_id = ''A'', od_destination_id = ''B'', od_distance_km = 50\<rparr>,
           \<lparr>od_origin_id = ''A'', od_destination_id = ''C'', od_distance_km = 60\<rparr>]
          0 1 ''industrial'' (Some 50)
          ((\<lambda>a. Map.empty)(0 := [''A'' \<mapsto> (10::int)], 1 := [''B'' \<mapsto> 6, ''C'' \<mapsto> 3])))
      = [\<lparr>origin_id = ''A'', destination_id = ''B'', allocated_volume = 6, distance_km = 50,
          demand_type = ''industrial'', weighted_cost = 300\<rparr>]
   \<and> \<not> distance_km \<lparr>origin_id = ''A'', destination_id = ''B'', allocated_volume = (6::int),
          distance_km = 50, demand_type = ''industrial'', weighted_cost = 300\<rparr> > 50"
proof -
  let ?h = "(\<lambda>a. Map.empty)(0 := [''A'' \<mapsto> (10::int)], 1 := [''B'' \<mapsto> 6, ''C'' \<mapsto> 3])"
  let ?st = "\<lparr>store = ?h, allocations = [], total_weighted_cost = 0\<rparr>"
  let ?near = "\<lparr>od_origin_id = ''A'', od_destination_id = ''B'', od_distance_km = (50::int)\<rparr>"
  let ?far = "\<lparr>od_origin_id = ''A'', od_destination_id = ''C'', od_distance_km = (60::int)\<rparr>"
  have far: "beyond_cutoff (Some (50::int)) (od_distance_km ?far)"
    by (simp add: beyond_cutoff_def)
  have near: "\<not> beyond_cutoff (Some (50::int)) (od_distance_km ?near)"
    by (simp add: beyond_cutoff_def)
  have run: "fst (greedy_allocate [?near, ?far] 0 1 ''industrial'' (Some 50) ?h)
      = [\<lparr>origin_id = ''A'', destination_id = ''B'', allocated_volume = 6, distance_km = 50,
          demand_type = ''industrial'', weighted_cost = 300\<rparr>]"
    by (simp add: greedy_allocate_def greedy_step_def beyond_cutoff_def dict_get_def dict_set_def Let_def)
  note far_thm = cutoff_excludes_exactly_farther_pairs
    [where c = 50 and row = ?far and cutoff_km = "Some 50" and supply_map = 0 and demand_map = 1
       and dtype = "''industrial''" and st = ?st and od_df = "[?near, ?far]" and h = ?h]
  note near_thm = cutoff_excludes_exactly_farther_pairs
    [where c = 50 and row = ?near and cutoff_km = "Some 50" and supply_map = 0 and demand_map = 1
       and dtype = "''industrial''" and st = ?st and od_df = "[?near, ?far]" and h = ?h]
  from far far_thm have a: "greedy_step 0 1 ''industrial'' (Some 50) ?st ?far = ?st"
    by blast
  from near near_thm have b: "greedy_step 0 1 ''industrial'' (Some 50) ?st ?near
      = greedy_step 0 1 ''industrial'' None ?st ?near"
    by blast
  from far_thm have c: "\<forall>a \<in> set (fst (greedy_allocate [?near, ?far] 0 1 ''industrial'' (Some 50) ?h)).
        \<not> distance_km a > 50"
    by blast
  from c run have d: "\<not> distance_km \<lparr>origin_id = ''A'', destination_id = ''B'',
          allocated_volume = (6::int), distance_km = 50, demand_type = ''industrial'',
          weighted_cost = 300\<rparr> > 50"
    by simp
  show ?thesis
    by (intro conjI) (fact far a near b run d)+
qed



text \<open>
  C5. The example of the specification, with cutoff 50: pass 1 emits one industrial record
  of volume 6 and cost 30 and leaves supply 4 at A and industrial demand 0 at B; pass 2
  emits one residential record of volume 4 and cost 20 and leaves supply 0 at A and
  residential demand 6 at B; the run returns the two records in this order, total volume 10
  and the costs 30 and 20. The same holds for \<^verbatim>\<open>main\<close> on the two tables of the example.
\<close>

theorem example_run_allocates_six_then_four:
  "greedy_allocate example_od supply_dict ind_dict ''industrial'' (Some 50)
      (example_store :: ('a::linordered_idom) store) =
     ([\<lparr>origin_id = ''A'', destination_id = ''B'', allocated_volume = 6, distance_km = 5,
        demand_type = ''industrial'', weighted_cost = 30\<rparr>], 30,
      (\<lambda>a. Map.empty)
        (supply_dict := [''A'' \<mapsto> 4], ind_dict := [''B'' \<mapsto> 0], res_dict := [''B'' \<mapsto> 10]))
   \<and> greedy_allocate example_od supply_dict res_dict ''residential'' (Some 50)
      ((\<lambda>a. Map.empty)
        (supply_dict := [''A'' \<mapsto> 4], ind_dict := [''B'' \<mapsto> 0], res_dict := [''B'' \<mapsto> (10::'a)])) =
     ([\<lparr>origin_id = ''A'', destination_id = ''B'', allocated_volume = 4, distance_km = 5,
        demand_type = ''residential'', weighted_cost = 20\<rparr>], 20,
      (\<lambda>a. Map.empty)
        (supply_dict := [''A'' \<mapsto> 0], ind_dict := [''B'' \<mapsto> 0], res_dict := [''B'' \<mapsto> 6]))
   \<and> two_pass example_od (Some 50) (example_store :: 'a store) =
     \<lparr>alloc_df =
        [\<lparr>origin_id = ''A'', destination_id = ''B'', allocated_volume = 6, distance_km = 5,
          demand_type = ''industrial'', weighted_cost = 30\<rparr>,
         \<lparr>origin_id = ''A'', destination_id = ''B'', allocated_volume = 4, distance_km = 5,
          demand_type = ''residential'', weighted_cost = 20\<rparr>],
      total_alloc = 10, cost_ind = 30, cost_res = 20,
      final_store = (\<lambda>a. Map.empty)
        (supply_dict := [''A'' \<mapsto> 0], ind_dict := [''B'' \<mapsto> 0], res_dict := [''B'' \<mapsto> 6])\<rparr>
   \<and> (case main example_parse example_parse example_ds_csv example_od_csv (Some (50::'a)) of
        Inl e \<Rightarrow> False
      | Inr r \<Rightarrow>
          alloc_df r =
            [\<lparr>origin_id = ''A'', destination_id = ''B'', allocated_volume = 6, distance_km = 5,
              demand_type = ''industrial'', weighted_cost = 30\<rparr>,
             \<lparr>origin_id = ''A'', destination_id = ''B'', allocated_volume = 4, distance_km = 5,
              demand_type = ''residential'', weighted_cost = 20\<rparr>] \<and>
          total_alloc r = 10 \<and> cost_ind r = 30 \<and> cost_res r = 20 \<and>
          dict_get (final_store r supply_dict) ''A'' = 0 \<and>
          dict_get (final_store r ind_dict) ''B'' = 0 \<and>
          dict_get (final_store r res_dict) ''B'' = 6)"
proof -
  have m: "(case main example_parse example_parse example_ds_csv example_od_csv (Some (50::'a)) of
        Inl e \<Rightarrow> False
      | Inr r \<Rightarrow>
          alloc_df r =
            [\<lparr>origin_id = ''A'', destination_id = ''B'', allocated_volume = 6, distance_km = 5,
              demand_type = ''industrial'', weighted_cost = 30\<rparr>,
             \<lparr>origin_id = ''A'', destination_id = ''B'', allocated_volume = 4, distance_km = 5,
              demand_type = ''residential'', weighted_cost = 20\<rparr>] \<and>
          total_alloc r = 10 \<and> cost_ind r = 30 \<and> cost_res r = 20 \<and>
          dict_get (final_store r supply_dict) ''A'' = 0 \<and>
          dict_get (final_store r ind_dict) ''B'' = 0 \<and>
          dict_get (final_store r res_dict) ''B'' = 6)"
    unfolding example_main sum.case
    by (simp add: two_pass_def greedy_allocate_def greedy_step_def beyond_cutoff_def dict_get_def
        dict_set_def Let_def example_od_def build_dicts_def to_dict_def series_sum_def)
  show ?thesis
    by (intro conjI) (fact example_pass1 example_pass2 example_two_pass m)+
qed

text \<open>
  C6. A pair whose origin has remaining supply \<open>\<le> 0\<close> or whose destination has remaining
  demand \<open>\<le> 0\<close>, a location absent from its dictionary counting as \<open>0.0\<close>, is skipped:
  the step returns the state it was given, so no record is appended, neither dictionary is
  written and the running total keeps its value.
\<close>

theorem skipped_pair_changes_nothing:
  fixes st :: "('a::{zero,preorder,plus,minus,times}) loop_state"
  shows "(dict_get (store st supply_map) (od_origin_id row) \<le> 0 \<or>
          dict_get (store st demand_map) (od_destination_id row) \<le> 0
          \<longrightarrow> greedy_step supply_map demand_map dtype cutoff_km st row = st)
       \<and> (store st supply_map (od_origin_id row) = None \<or>
          store st demand_map (od_destination_id row) = None
          \<longrightarrow> greedy_step supply_map demand_map dtype cutoff_km st row = st)"
  by (auto simp: step_skip dict_get_absent)

theorem skipped_pair_changes_nothing_witness:
  "dict_get (store \<lparr>store = (\<lambda>a. Map.empty)(0 := [''A'' \<mapsto> (0::int)], 1 := [''C'' \<mapsto> 5]),
                  allocations = [], total_weighted_cost = 0\<rparr> 0)
            (od_origin_id \<lparr>od_origin_id = ''A'', od_destination_id = ''B'', od_distance_km = 3\<rparr>) \<le> 0
   \<and> store \<lparr>store = (\<lambda>a. Map.empty)(0 := [''A'' \<mapsto> (0::int)], 1 := [''C'' \<mapsto> 5]),
                  allocations = [], total_weighted_cost = 0\<rparr> 1
            (od_destination_id \<lparr>od_origin_id = ''A'', od_destination_id = ''B'', od_distance_km = 3\<rparr>) = None
   \<and> greedy_step 0 1 ''industrial'' (Some 50)
        \<lparr>store = (\<lambda>a. Map.empty)(0 := [''A'' \<mapsto> (0::int)], 1 := [''C'' \<mapsto> 5]),
         allocations = [], total_weighted_cost = 0\<rparr>
        \<lparr>od_origin_id = ''A'', od_destination_id = ''B'', od_distance_km = 3\<rparr>
      = \<lparr>store = (\<lambda>a. Map.empty)(0 := [''A'' \<mapsto> (0::int)], 1 := [''C'' \<mapsto> 5]),
         allocations = [], total_weighted_cost = 0\<rparr>"
  using skipped_pair_changes_nothing
    [where st = "\<lparr>store = (\<lambda>a. Map.empty)(0 := [''A'' \<mapsto> (0::int)], 1 := [''C'' \<mapsto> 5]),
                  allocations = [], total_weighted_cost = 0\<rparr>"
       and supply_map = 0 and demand_map = 1 and dtype = "''industrial''" and cutoff_km = "Some 50"
       and row = "\<lparr>od_origin_id = ''A'', od_destination_id = ''B'', od_distance_km = 3\<rparr>"]
  by (simp add: dict_get_def)

text \<open>
  C7. The total weighted cost returned by \<^verbatim>\<open>greedy_allocate\<close> is the sum of the
  \<^verbatim>\<open>weighted_cost\<close> fields of the records it returns, added one by one from \<open>0.0\<close> in
  emission order: the very additions of line 159. No law of arithmetic is used, so the
  equation holds for any addition, a rounding one included.
\<close>

theorem total_cost_is_running_sum:
  fixes h :: "('a::{zero,ord,plus,minus,times}) store"
  shows "(case greedy_allocate od_df supply_map demand_map dtype cutoff_km h of
      (allocs, cost, h') \<Rightarrow> cost = foldl (+) 0 (map weighted_cost allocs))"
  using cost_loop[of "\<lparr>store = h, allocations = [], total_weighted_cost = 0\<rparr>"
      supply_map demand_map dtype cutoff_km od_df]
  by (simp add: greedy_allocate_def Let_def)

text \<open>
  C8. If a required column is absent from the demand/supply table after the renaming of
  columns, \<^verbatim>\<open>load_demand_supply\<close>, and with it \<^verbatim>\<open>main\<close>, ends with the error that carries
  exactly the set of missing columns; likewise for \<^verbatim>\<open>load_od\<close> and the OD matrix, which
  \<^verbatim>\<open>main\<close> loads second. In both cases \<^verbatim>\<open>main\<close> returns no result: the dictionaries are
  not built and no allocation step runs.
\<close>

theorem missing_column_aborts_before_allocation:
  fixes cutoff_km :: "('a::{zero,linorder,plus,minus,times}) option"
  shows "(ds_required - set (rename_columns ds_rename_map (frame_columns ds_csv)) \<noteq> {} \<longrightarrow>
            load_demand_supply to_numeric ds_csv =
              Inl (MissingColumns DemandSupply
                (ds_required - set (rename_columns ds_rename_map (frame_columns ds_csv)))) \<and>
            main to_numeric astype_float ds_csv od_csv cutoff_km =
              Inl (MissingColumns DemandSupply
                (ds_required - set (rename_columns ds_rename_map (frame_columns ds_csv)))))
     \<and> (od_required - set (rename_columns od_rename_map (frame_columns od_csv)) \<noteq> {} \<longrightarrow>
            load_od astype_float od_csv =
              Inl (MissingColumns ODMatrix
                (od_required - set (rename_columns od_rename_map (frame_columns od_csv)))) \<and>
            (ds_required - set (rename_columns ds_rename_map (frame_columns ds_csv)) = {} \<longrightarrow>
               main to_numeric astype_float ds_csv od_csv cutoff_km =
                 Inl (MissingColumns ODMatrix
                   (od_required - set (rename_columns od_rename_map (frame_columns od_csv))))))
     \<and> (ds_required - set (rename_columns ds_rename_map (frame_columns ds_csv)) \<noteq> {} \<or>
        od_required - set (rename_columns od_rename_map (frame_columns od_csv)) \<noteq> {} \<longrightarrow>
          (\<forall>r. main to_numeric astype_float ds_csv od_csv cutoff_km \<noteq> Inr r))"
  by (auto simp: main_def load_demand_supply_def load_od_def Let_def)

theorem missing_column_aborts_before_allocation_witness:
  "ds_required - set (rename_columns ds_rename_map
      (frame_columns \<lparr>frame_columns = [''name'', ''supply'', ''DEMAND_INDUSTRY''], frame_rows = []\<rparr>)) \<noteq> {}
   \<and> main example_parse example_parse
        \<lparr>frame_columns = [''name'', ''supply'', ''DEMAND_INDUSTRY''], frame_rows = []\<rparr>
        example_od_csv (Some (50::int)) =
      Inl (MissingColumns DemandSupply {''RESIDENTIAL_DEMAND''})
   \<and> od_required - set (rename_columns od_rename_map
      (frame_columns \<lparr>frame_columns = [''Origin'', ''Destination''], frame_rows = []\<rparr>)) \<noteq> {}
   \<and> ds_required - set (rename_columns ds_rename_map (frame_columns example_ds_csv)) = {}
   \<and> load_od (example_parse :: string \<Rightarrow> int option)
        \<lparr>frame_columns = [''Origin'', ''Destination''], frame_rows = []\<rparr> =
      Inl (MissingColumns ODMatrix {''distance_km''})
   \<and> main example_parse example_parse example_ds_csv
        \<lparr>frame_columns = [''Origin'', ''Destination''], frame_rows = []\<rparr> (Some (50::int)) =
      Inl (MissingColumns ODMatrix {''distance_km''})"
proof -
  let ?bad_ds = "\<lparr>frame_columns = [''name'', ''supply'', ''DEMAND_INDUSTRY''], frame_rows = []\<rparr>"
  let ?bad_od = "\<lparr>frame_columns = [''Origin'', ''Destination''], frame_rows = []\<rparr>"
  have m1: "ds_required - set (rename_columns ds_rename_map (frame_columns ?bad_ds)) =
      {''RESIDENTIAL_DEMAND''}"
    by (auto simp: ds_required_def rename_columns_def ds_rename_map_def)
  have m2: "od_required - set (rename_columns od_rename_map (frame_columns ?bad_od)) =
      {''distance_km''}"
    by (auto simp: od_required_def rename_columns_def od_rename_map_def)
  have m3: "ds_required - set (rename_columns ds_rename_map (frame_columns example_ds_csv)) = {}"
    by (auto simp: ds_required_def rename_columns_def ds_rename_map_def example_ds_csv_def)
  note t1 = missing_column_aborts_before_allocation
    [where ds_csv = ?bad_ds and od_csv = example_od_csv and to_numeric = example_parse
       and astype_float = example_parse and cutoff_km = "Some (50::int)"]
  note t2 = missing_column_aborts_before_allocation
    [where ds_csv = example_ds_csv and od_csv = ?bad_od and to_numeric = example_parse
       and astype_float = example_parse and cutoff_km = "Some (50::int)"]
  have n1: "ds_required - set (rename_columns ds_rename_map (frame_columns ?bad_ds)) \<noteq> {}"
    unfolding m1 by simp
  have n2: "od_required - set (rename_columns od_rename_map (frame_columns ?bad_od)) \<noteq> {}"
    unfolding m2 by simp
  from t1 n1 have a: "main example_parse example_parse ?bad_ds example_od_csv (Some (50::int)) =
      Inl (MissingColumns DemandSupply {''RESIDENTIAL_DEMAND''})"
    unfolding m1 by blast
  from t2 n2 m3 have b: "load_od (example_parse :: string \<Rightarrow> int option) ?bad_od =
      Inl (MissingColumns ODMatrix {''distance_km''})"
    and c: "main example_parse example_parse example_ds_csv ?bad_od (Some (50::int)) =
      Inl (MissingColumns ODMatrix {''distance_km''})"
    unfolding m2 by blast+
  show ?thesis
    by (intro conjI) (fact n1 a n2 m3 b c)+
qed

text \<open>
  C9. \<^verbatim>\<open>load_od\<close> returns the cleaned rows in ascending order of distance, sorted stably:
  the rows of any one distance keep their relative order, and the rows are the same as
  before. Sorting a table that is already sorted leaves it as it is, so sorting twice
  is sorting once.
\<close>

theorem distance_table_sorted_stably:
  fixes od :: "('a::linorder) od_row list"
  shows "sorted (map od_distance_km (sort_values od))
     \<and> mset (sort_values od) = mset od
     \<and> (\<forall>k. filter (\<lambda>r. od_distance_km r = k) (sort_values od) =
             filter (\<lambda>r. od_distance_km r = k) od)
     \<and> sort_values (sort_values od) = sort_values od
     \<and> (sorted (map od_distance_km od) \<longrightarrow> sort_values od = od)
     \<and> (load_od astype_float od_csv = Inr od_df \<longrightarrow>
          (\<exists>cleaned. clean_od_rows astype_float
               (rename_columns od_rename_map (frame_columns od_csv)) (frame_rows od_csv) = Inr cleaned \<and>
             od_df = sort_values cleaned) \<and>
          sorted (map od_distance_km od_df) \<and> sort_values od_df = od_df)"
proof -
  have a: "sorted (map od_distance_km (sort_values od))"
    by (rule sort_values_sorted)
  have b: "mset (sort_values od) = mset od"
    by (simp add: sort_values_def)
  have c: "\<forall>k. filter (\<lambda>r. od_distance_km r = k) (sort_values od) =
             filter (\<lambda>r. od_distance_km r = k) od"
    by (simp add: sort_values_def sort_key_stable)
  have d: "sort_values (sort_values od) = sort_values od"
    by (rule sort_values_id[OF a])
  have e: "sorted (map od_distance_km od) \<longrightarrow> sort_values od = od"
    using sort_values_id by blast
  have f: "load_od astype_float od_csv = Inr od_df \<longrightarrow>
          (\<exists>cleaned. clean_od_rows astype_float
               (rename_columns od_rename_map (frame_columns od_csv)) (frame_rows od_csv) = Inr cleaned \<and>
             od_df = sort_values cleaned) \<and>
          sorted (map od_distance_km od_df) \<and> sort_values od_df = od_df"
  proof
    assume l: "load_od astype_float od_csv = Inr od_df"
    from load_od_sorted[OF l] obtain cleaned where
      cl: "clean_od_rows astype_float
               (rename_columns od_rename_map (frame_columns od_csv)) (frame_rows od_csv) = Inr cleaned"
      and eq: "od_df = sort_values cleaned"
      by blast
    have s: "sorted (map od_distance_km od_df)"
      unfolding eq by (rule sort_values_sorted)
    from cl eq s sort_values_id[OF s]
    show "(\<exists>cleaned. clean_od_rows astype_float
               (rename_columns od_rename_map (frame_columns od_csv)) (frame_rows od_csv) = Inr cleaned \<and>
             od_df = sort_values cleaned) \<and>
          sorted (map od_distance_km od_df) \<and> sort_values od_df = od_df"
      by blast
  qed
  show ?thesis
    by (intro conjI) (fact a b c d e f)+
qed

theorem distance_table_sorted_stably_witness:
  "sort_values
     [\<lparr>od_origin_id = ''A'', od_destination_id = ''B'', od_distance_km = (5::int)\<rparr>,
      \<lparr>od_origin_id = ''C'', od_destination_id = ''D'', od_distance_km = 3\<rparr>,
      \<lparr>od_origin_id = ''E'', od_destination_id = ''F'', od_distance_km = 5\<rparr>] =
     [\<lparr>od_origin_id = ''C'', od_destination_id = ''D'', od_distance_km = 3\<rparr>,
      \<lparr>od_origin_id = ''A'', od_destination_id = ''B'', od_distance_km = 5\<rparr>,
      \<lparr>od_origin_id = ''E'', od_destination_id = ''F'', od_distance_km = 5\<rparr>]
   \<and> sorted (map od_distance_km
     [\<lparr>od_origin_id = ''C'', od_destination_id = ''D'', od_distance_km = (3::int)\<rparr>,
      \<lparr>od_origin_id = ''A'', od_destination_id = ''B'', od_distance_km = 5\<rparr>,
      \<lparr>od_origin_id = ''E'', od_destination_id = ''F'', od_distance_km = 5\<rparr>])
   \<and> sort_values
     [\<lparr>od_origin_id = ''C'', od_destination_id = ''D'', od_distance_km = (3::int)\<rparr>,
      \<lparr>od_origin_id = ''A'', od_destination_id = ''B'', od_distance_km = 5\<rparr>,
      \<lparr>od_origin_id = ''E'', od_destination_id = ''F'', od_distance_km = 5\<rparr>] =
     [\<lparr>od_origin_id = ''C'', od_destination_id = ''D'', od_distance_km = 3\<rparr>,
      \<lparr>od_origin_id = ''A'', od_destination_id = ''B'', od_distance_km = 5\<rparr>,
      \<lparr>od_origin_id = ''E'', od_destination_id = ''F'', od_distance_km = 5\<rparr>]
   \<and> load_od example_parse example_od_csv = Inr (example_od :: int od_row list)
   \<and> sorted (map od_distance_km (example_od :: int od_row list))
   \<and> sort_values (example_od :: int od_row list) = example_od"
proof -
  let ?in = "[\<lparr>od_origin_id = ''A'', od_destination_id = ''B'', od_distance_km = (5::int)\<rparr>,
      \<lparr>od_origin_id = ''C'', od_destination_id = ''D'', od_distance_km = 3\<rparr>,
      \<lparr>od_origin_id = ''E'', od_destination_id = ''F'', od_distance_km = 5\<rparr>]"
  let ?out = "[\<lparr>od_origin_id = ''C'', od_destination_id = ''D'', od_distance_km = (3::int)\<rparr>,
      \<lparr>od_origin_id = ''A'', od_destination_id = ''B'', od_distance_km = 5\<rparr>,
      \<lparr>od_origin_id = ''E'', od_destination_id = ''F'', od_distance_km = 5\<rparr>]"
  have ev: "sort_values ?in = ?out"
    by (simp add: sort_values_def)
  have so: "sorted (map od_distance_km ?out)"
    by simp
  note t = distance_table_sorted_stably
    [where od = ?out and astype_float = example_parse and od_csv = example_od_csv
       and od_df = "example_od :: int od_row list"]
  from t so have id: "sort_values ?out = ?out"
    by blast
  have l: "load_od example_parse example_od_csv = Inr (example_od :: int od_row list)"
    by (rule example_load_od)
  from t l have s2: "sorted (map od_distance_km (example_od :: int od_row list))"
    and id2: "sort_values (example_od :: int od_row list) = example_od"
    by blast+
  show ?thesis
    by (intro conjI) (fact ev so id l s2 id2)+
qed



end
